theory Spec2Isabelle
  imports Main "HOL-Library.Word" "HOL-Library.AList"
begin

section \<open>Data model of the MDM server (be/main.py)\<close>

text \<open>
  The server keeps two module-level dictionaries, \<^verbatim>\<open>enrolled_devices\<close> and
  \<^verbatim>\<open>pending_commands\<close>, both keyed by the UDID a request carries. On the two device
  channels the key is \<^verbatim>\<open>data.get("UDID")\<close>, which is \<^verbatim>\<open>None\<close> when the plist has no
  such entry, so keys are optional strings; the management API always supplies a string.

  The values of a command body are modelled as a datatype: strings, data, integers,
  booleans, \<^verbatim>\<open>None\<close> (a JSON null), lists and dicts. Floats, which \<^verbatim>\<open>plistlib\<close> always
  writes, are left out. Strings are byte strings in UTF-8, as everywhere in this theory.
  A command body is a Python dict, kept as an association list in insertion order.
\<close>

type_synonym byte = "8 word"

datatype plist_value =
    PString string
  | PData "byte list"
  | PInteger int
  | PBool bool
  | PNone
  | PArray "plist_value list"
  | PDict "(string \<times> plist_value) list"

type_synonym command = "(string \<times> plist_value) list"

text \<open>One value of \<^verbatim>\<open>enrolled_devices\<close>. The keys \<^verbatim>\<open>lost_mode_message\<close> and
  \<^verbatim>\<open>lost_mode_phone\<close> are absent until lost mode is enabled: absent is \<open>None\<close>.\<close>

record device =
  udid :: "string option"
  token :: "string option"
  push_magic :: "string option"
  unlock_token :: "string option"
  enrolled_at :: string
  last_seen :: string
  lost_mode_enabled :: bool
  lost_mode_message :: "string option"
  lost_mode_phone :: "string option"

text \<open>One element of a list in \<^verbatim>\<open>pending_commands\<close>: the dict
  \<^verbatim>\<open>{"CommandUUID": command_uuid, "Command": command}\<close> built by \<^verbatim>\<open>send_command\<close>.\<close>

record mdm_command_dict =
  CommandUUID :: string
  Command :: command

text \<open>
  The parsed plist body of a device request, with the keys the two handlers read
  (\<^verbatim>\<open>data.get(key)\<close> is \<open>None\<close> for a missing key). The request's own
  \<^verbatim>\<open>CommandUUID\<close> key is the field \<open>ReportedCommandUUID\<close>, the name
  \<open>CommandUUID\<close> being taken by the queued command. Values are taken to have the types
  the MDM protocol gives them (strings, and data for the two tokens).
\<close>

record plist_data =
  MessageType :: "string option"
  UDID :: "string option"
  Token :: "byte list option"
  PushMagic :: "string option"
  UnlockToken :: "byte list option"
  Status :: "string option"
  ReportedCommandUUID :: "string option"
  ErrorChain :: "plist_value option"
  QueryResponses :: "plist_value option"

text \<open>
  The server state. \<open>enrolled_devices\<close> and \<open>pending_commands\<close> are the two
  dictionaries of the module. The other two fields record the calls the handlers make to
  the outside: \<open>uuid4_log\<close> lists the command identifiers drawn from
  \<^verbatim>\<open>uuid.uuid4()\<close> by \<^verbatim>\<open>send_command\<close>, and \<open>apns_log\<close> lists the arguments of
  every call of \<^verbatim>\<open>send_apns_notification\<close> (token, push magic, topic), oldest first.
\<close>

record server =
  enrolled_devices :: "string option \<rightharpoonup> device"
  pending_commands :: "string option \<rightharpoonup> mdm_command_dict list"
  uuid4_log :: "string list"
  apns_log :: "(string option \<times> string option \<times> string) list"

definition init :: server where
  "init = \<lparr>enrolled_devices = Map.empty, pending_commands = Map.empty,
            uuid4_log = [], apns_log = []\<rparr>"

text \<open>What a handler hands back: a response, or the exception that leaves it.
  \<open>HTTPException\<close> is raised by the handlers themselves. \<open>KeyError\<close> and
  \<open>PlistlibError\<close> are unhandled Python exceptions, which the framework turns into a
  500 response; \<open>PlistlibError\<close> stands for the exception that leaves
  \<^verbatim>\<open>plistlib.dumps\<close> at the first value it cannot write (\<^verbatim>\<open>ValueError\<close>,
  \<^verbatim>\<open>OverflowError\<close> or \<^verbatim>\<open>TypeError\<close>).\<close>

datatype error = HTTPException nat string | KeyError string | PlistlibError

record send_result =
  status :: string
  command_uuid :: string
  apns_sent :: bool

datatype response =
    Response nat
  | PlistResponse mdm_command_dict
  | Queued send_result
  | UnenrollmentInitiated

type_synonym outcome = "(error + response) \<times> server"

section \<open>Utility functions\<close>

text \<open>Python's truth value of an optional \<^verbatim>\<open>str\<close> or \<^verbatim>\<open>bytes\<close>: \<^verbatim>\<open>None\<close> and the
  empty sequence are false.\<close>

definition truthy :: "'a list option \<Rightarrow> bool" where
  "truthy v = (case v of None \<Rightarrow> False | Some x \<Rightarrow> x \<noteq> [])"

text \<open>\<^verbatim>\<open>bytes.hex()\<close>: two lower-case hexadecimal digits per byte.\<close>

definition hexdigit :: "nat \<Rightarrow> char" where
  "hexdigit n = ''0123456789abcdef'' ! (n mod 16)"

definition hex :: "byte list \<Rightarrow> string" where
  "hex bs = concat (map (\<lambda>b. [hexdigit (unat b div 16), hexdigit (unat b mod 16)]) bs)"

text \<open>\<^verbatim>\<open>x.hex() if x else None\<close>\<close>

definition hex_if :: "byte list option \<Rightarrow> string option" where
  "hex_if x = (if truthy x then Some (hex (the x)) else None)"

text \<open>
  What \<^verbatim>\<open>plistlib.dumps\<close> accepts. Every string and every dict key goes through
  \<^verbatim>\<open>_escape\<close>, which raises \<^verbatim>\<open>ValueError\<close> on a control character (code 0 to 8, 11,
  12, 14 to 31); an integer outside \<open>-2^63 \<le> i < 2^64\<close> raises \<^verbatim>\<open>OverflowError\<close>;
  \<^verbatim>\<open>None\<close> raises \<^verbatim>\<open>TypeError\<close>. The bytes written are not modelled.
\<close>

definition control_char :: "char \<Rightarrow> bool" where
  "control_char c \<longleftrightarrow>
     (let n = (of_char c :: nat) in n < 9 \<or> n = 11 \<or> n = 12 \<or> (14 \<le> n \<and> n < 32))"

definition escapable :: "string \<Rightarrow> bool" where
  "escapable text = list_all (\<lambda>c. \<not> control_char c) text"

primrec plist_writable :: "plist_value \<Rightarrow> bool" where
  "plist_writable (PString text) = escapable text"
| "plist_writable (PData b) = True"
| "plist_writable (PInteger i) = (- (2 ^ 63) \<le> i \<and> i < 2 ^ 64)"
| "plist_writable (PBool b) = True"
| "plist_writable PNone = False"
| "plist_writable (PArray xs) = list_all (\<lambda>ok. ok) (map plist_writable xs)"
| "plist_writable (PDict kvs) =
     list_all (\<lambda>(k, ok). escapable k \<and> ok) (map (map_prod id plist_writable) kvs)"

text \<open>
  \<^verbatim>\<open>create_plist_response\<close> (lines 42 to 45), applied to a queued command, the dict
  \<^verbatim>\<open>{"CommandUUID": ..., "Command": ...}\<close>: \<^verbatim>\<open>plistlib.dumps\<close> is called with no
  handler around it.
\<close>

definition create_plist_response :: "mdm_command_dict \<Rightarrow> error + response" where
  "create_plist_response data =
     (if plist_writable (PString (CommandUUID data)) \<and> plist_writable (PDict (Command data))
      then Inr (PlistResponse data)
      else Inl PlistlibError)"

definition MDM_CONFIG_topic :: string where
  "MDM_CONFIG_topic = ''com.apple.mgmt.External.your-uuid''"

section \<open>Device channels\<close>

text \<open>
  \<^verbatim>\<open>mdm_checkin\<close> (PUT /mdm/checkin). \<open>now1\<close> and \<open>now2\<close> are the two readings
  of \<^verbatim>\<open>datetime.utcnow().isoformat()\<close> taken by the TokenUpdate branch. The body is
  taken as already parsed: \<^verbatim>\<open>parse_plist\<close> raises its 400 before any state is read.
\<close>

definition mdm_checkin :: "string \<Rightarrow> string \<Rightarrow> plist_data \<Rightarrow> server \<Rightarrow> outcome" where
  "mdm_checkin now1 now2 data s =
    (let message_type = MessageType data; uid = UDID data in
     if message_type = Some ''Authenticate'' then (Inr (Response 200), s)
     else if message_type = Some ''TokenUpdate'' then
       (Inr (Response 200),
        s\<lparr>enrolled_devices := (enrolled_devices s)(uid \<mapsto>
             \<lparr>udid = uid,
              token = hex_if (Token data),
              push_magic = PushMagic data,
              unlock_token = hex_if (UnlockToken data),
              enrolled_at = now1,
              last_seen = now2,
              lost_mode_enabled = False,
              lost_mode_message = None,
              lost_mode_phone = None\<rparr>)\<rparr>)
     else if message_type = Some ''CheckOut'' then
       (Inr (Response 200),
        if uid \<in> dom (enrolled_devices s)
        then s\<lparr>enrolled_devices := (enrolled_devices s)(uid := None)\<rparr>
        else s)
     else (Inr (Response 400), s))"

text \<open>
  \<^verbatim>\<open>mdm_command\<close> (PUT /mdm/command). \<open>now\<close> is the clock reading. The branches
  on \<^verbatim>\<open>Status\<close> (lines 160 to 167) only write to the log, so they leave no trace here.
  The head of the queue is popped first (line 171); the log line that follows indexes
  \<^verbatim>\<open>command['Command']['RequestType']\<close> and raises \<^verbatim>\<open>KeyError\<close> when the command body
  has no such key, and \<^verbatim>\<open>create_plist_response\<close> raises when the command cannot be
  written as a plist: both after the pop.
\<close>

definition mdm_command :: "string \<Rightarrow> plist_data \<Rightarrow> server \<Rightarrow> outcome" where
  "mdm_command now data s =
    (let uid = UDID data;
         s1 = (case enrolled_devices s uid of
                 Some d \<Rightarrow> s\<lparr>enrolled_devices := (enrolled_devices s)(uid \<mapsto> d\<lparr>last_seen := now\<rparr>)\<rparr>
               | None \<Rightarrow> s)
     in case pending_commands s1 uid of
          Some (cmd # rest) \<Rightarrow>
            (let s2 = s1\<lparr>pending_commands := (pending_commands s1)(uid \<mapsto> rest)\<rparr> in
             case map_of (Command cmd) ''RequestType'' of
               None \<Rightarrow> (Inl (KeyError ''RequestType''), s2)
             | Some _ \<Rightarrow> (create_plist_response cmd, s2))
        | _ \<Rightarrow> (Inr (Response 200), s1))"

section \<open>Wake dispatch (be/src/apns_client.py)\<close>

text \<open>
  What the push library does for one call: some step of the \<^verbatim>\<open>try\<close> block raises an
  \<^verbatim>\<open>Exception\<close>, or \<^verbatim>\<open>send_notification\<close> returns a response with its
  \<^verbatim>\<open>is_successful\<close> flag. After a successful response the log line slices
  \<^verbatim>\<open>token[:10]\<close> inside the same \<^verbatim>\<open>try\<close>: with a \<^verbatim>\<open>None\<close> token that raises
  \<^verbatim>\<open>TypeError\<close>, which the handler catches.
\<close>

datatype apns_outcome = ApnsRaised | ApnsResponse bool

definition send_apns_notification ::
  "apns_outcome \<Rightarrow> string option \<Rightarrow> string option \<Rightarrow> string \<Rightarrow> server \<Rightarrow> bool \<times> server" where
  "send_apns_notification apns tok magic topic s =
    (let s1 = s\<lparr>apns_log := apns_log s @ [(tok, magic, topic)]\<rparr> in
     case apns of
       ApnsRaised \<Rightarrow> (False, s1)
     | ApnsResponse is_successful \<Rightarrow>
         if is_successful then (case tok of None \<Rightarrow> (False, s1) | Some t \<Rightarrow> (True, s1))
         else (False, s1))"

section \<open>Management API\<close>

text \<open>
  \<^verbatim>\<open>send_command\<close> (POST /api/devices/{udid}/command). \<open>fresh\<close> is the value of
  \<^verbatim>\<open>str(uuid.uuid4())\<close> and \<open>apns\<close> what the push library does; both are used
  only after the registration check of line 199.
\<close>

definition send_command :: "apns_outcome \<Rightarrow> string \<Rightarrow> string \<Rightarrow> command \<Rightarrow> server \<Rightarrow> outcome" where
  "send_command apns fresh uid cmd s =
    (case enrolled_devices s (Some uid) of
       None \<Rightarrow> (Inl (HTTPException 404 ''Device not found''), s)
     | Some dev \<Rightarrow>
         (let s1 = s\<lparr>uuid4_log := uuid4_log s @ [fresh]\<rparr>;
              mdm_cmd = \<lparr>CommandUUID = fresh, Command = cmd\<rparr>;
              s2 = (if Some uid \<notin> dom (pending_commands s1)
                    then s1\<lparr>pending_commands := (pending_commands s1)(Some uid \<mapsto> [])\<rparr>
                    else s1);
              s3 = s2\<lparr>pending_commands :=
                        (pending_commands s2)(Some uid \<mapsto> the (pending_commands s2 (Some uid)) @ [mdm_cmd])\<rparr>;
              (push_result, s4) = send_apns_notification apns (token dev) (push_magic dev) MDM_CONFIG_topic s3
          in (Inr (Queued \<lparr>status = ''queued'', command_uuid = fresh, apns_sent = push_result\<rparr>), s4)))"

definition request_device_info :: "apns_outcome \<Rightarrow> string \<Rightarrow> string \<Rightarrow> server \<Rightarrow> outcome" where
  "request_device_info apns fresh uid s =
    (let queries = map PString
           [''DeviceName'', ''OSVersion'', ''BuildVersion'', ''ModelName'',
            ''Model'', ''ProductName'', ''SerialNumber'', ''DeviceCapacity'',
            ''AvailableDeviceCapacity'', ''BatteryLevel'', ''UDID'',
            ''IsSupervised'', ''IsDeviceLocatorServiceEnabled''];
         cmd = [(''RequestType'', PString ''DeviceInformation''), (''Queries'', PArray queries)]
     in send_command apns fresh uid cmd s)"

text \<open>\<open>payload\<close> is the value of \<^verbatim>\<open>plistlib.dumps(profile)\<close> when the profile can be
  written; otherwise the call raises before anything else is done.\<close>

definition install_profile ::
  "apns_outcome \<Rightarrow> string \<Rightarrow> string \<Rightarrow> command \<Rightarrow> byte list \<Rightarrow> server \<Rightarrow> outcome" where
  "install_profile apns fresh uid profile payload s =
    (if \<not> plist_writable (PDict profile) then (Inl PlistlibError, s)
     else
       (let cmd = [(''RequestType'', PString ''InstallProfile''), (''Payload'', PData payload)]
        in send_command apns fresh uid cmd s))"

definition device_lock ::
  "apns_outcome \<Rightarrow> string \<Rightarrow> string \<Rightarrow> string option \<Rightarrow> string option \<Rightarrow> server \<Rightarrow> outcome" where
  "device_lock apns fresh uid message phone_number s =
    (let cmd0 = [(''RequestType'', PString ''DeviceLock'')];
         cmd1 = (if truthy message then AList.update ''Message'' (PString (the message)) cmd0 else cmd0);
         cmd2 = (if truthy phone_number
                 then AList.update ''PhoneNumber'' (PString (the phone_number)) cmd1 else cmd1)
     in send_command apns fresh uid cmd2 s)"

section \<open>Lost mode API\<close>

definition enable_lost_mode ::
  "apns_outcome \<Rightarrow> string \<Rightarrow> string \<Rightarrow> string \<Rightarrow> string \<Rightarrow> string option \<Rightarrow> server \<Rightarrow> outcome" where
  "enable_lost_mode apns fresh uid message phone_number footnote s =
    (case enrolled_devices s (Some uid) of
       None \<Rightarrow> (Inl (HTTPException 404 ''Device not found''), s)
     | Some dev \<Rightarrow>
         (let cmd0 = [(''RequestType'', PString ''EnableLostMode''),
                      (''Message'', PString message),
                      (''PhoneNumber'', PString phone_number)];
              cmd1 = (if truthy footnote
                      then AList.update ''Footnote'' (PString (the footnote)) cmd0 else cmd0);
              s1 = s\<lparr>enrolled_devices := (enrolled_devices s)(Some uid \<mapsto>
                        dev\<lparr>lost_mode_enabled := True,
                            lost_mode_message := Some message,
                            lost_mode_phone := Some phone_number\<rparr>)\<rparr>
          in send_command apns fresh uid cmd1 s1))"

definition disable_lost_mode :: "apns_outcome \<Rightarrow> string \<Rightarrow> string \<Rightarrow> server \<Rightarrow> outcome" where
  "disable_lost_mode apns fresh uid s =
    (case enrolled_devices s (Some uid) of
       None \<Rightarrow> (Inl (HTTPException 404 ''Device not found''), s)
     | Some dev \<Rightarrow>
         if \<not> lost_mode_enabled dev
         then (Inl (HTTPException 400 ''Lost Mode is not enabled''), s)
         else
           (let cmd = [(''RequestType'', PString ''DisableLostMode'')];
                s1 = s\<lparr>enrolled_devices := (enrolled_devices s)(Some uid \<mapsto>
                          dev\<lparr>lost_mode_enabled := False,
                              lost_mode_message := None,
                              lost_mode_phone := None\<rparr>)\<rparr>
            in send_command apns fresh uid cmd s1))"

definition get_lost_mode_location :: "apns_outcome \<Rightarrow> string \<Rightarrow> string \<Rightarrow> server \<Rightarrow> outcome" where
  "get_lost_mode_location apns fresh uid s =
    (if Some uid \<notin> dom (enrolled_devices s)
     then (Inl (HTTPException 404 ''Device not found''), s)
     else send_command apns fresh uid [(''RequestType'', PString ''DeviceLocation'')] s)"

definition play_lost_mode_sound :: "apns_outcome \<Rightarrow> string \<Rightarrow> string \<Rightarrow> server \<Rightarrow> outcome" where
  "play_lost_mode_sound apns fresh uid s =
    (if Some uid \<notin> dom (enrolled_devices s)
     then (Inl (HTTPException 404 ''Device not found''), s)
     else send_command apns fresh uid [(''RequestType'', PString ''PlayLostModeSound'')] s)"

text \<open>\<^verbatim>\<open>unenroll_device\<close> queues a RemoveProfile command; it does not touch the registry.\<close>

definition unenroll_device :: "apns_outcome \<Rightarrow> string \<Rightarrow> string \<Rightarrow> server \<Rightarrow> outcome" where
  "unenroll_device apns fresh uid s =
    (if Some uid \<notin> dom (enrolled_devices s)
     then (Inl (HTTPException 404 ''Device not found''), s)
     else
       (let cmd = [(''RequestType'', PString ''RemoveProfile''),
                   (''Identifier'', PString ''com.yourorg.mdm'')]
        in case send_command apns fresh uid cmd s of
             (Inl e, s1) \<Rightarrow> (Inl e, s1)
           | (Inr _, s1) \<Rightarrow> (Inr UnenrollmentInitiated, s1)))"

section \<open>Runs of the server\<close>

text \<open>
  One request to a handler that can change the state, with the values the outside
  supplies for it (clock readings, the fresh identifier, the behaviour of the push
  library). The read-only handlers (\<^verbatim>\<open>/\<close>, \<^verbatim>\<open>/enroll\<close>, \<^verbatim>\<open>list_devices\<close>,
  \<^verbatim>\<open>get_device\<close>) are left out.
\<close>

datatype event =
    CheckIn string string plist_data
  | CommandExchange string plist_data
  | SendCommand apns_outcome string string command
  | RequestDeviceInfo apns_outcome string string
  | InstallProfile apns_outcome string string command "byte list"
  | DeviceLock apns_outcome string string "string option" "string option"
  | EnableLostMode apns_outcome string string string string "string option"
  | DisableLostMode apns_outcome string string
  | GetLostModeLocation apns_outcome string string
  | PlayLostModeSound apns_outcome string string
  | UnenrollDevice apns_outcome string string

fun handle :: "event \<Rightarrow> server \<Rightarrow> outcome" where
  "handle (CheckIn now1 now2 data) s = mdm_checkin now1 now2 data s"
| "handle (CommandExchange now data) s = mdm_command now data s"
| "handle (SendCommand apns fresh uid cmd) s = send_command apns fresh uid cmd s"
| "handle (RequestDeviceInfo apns fresh uid) s = request_device_info apns fresh uid s"
| "handle (InstallProfile apns fresh uid profile payload) s =
     install_profile apns fresh uid profile payload s"
| "handle (DeviceLock apns fresh uid message phone_number) s =
     device_lock apns fresh uid message phone_number s"
| "handle (EnableLostMode apns fresh uid message phone_number footnote) s =
     enable_lost_mode apns fresh uid message phone_number footnote s"
| "handle (DisableLostMode apns fresh uid) s = disable_lost_mode apns fresh uid s"
| "handle (GetLostModeLocation apns fresh uid) s = get_lost_mode_location apns fresh uid s"
| "handle (PlayLostModeSound apns fresh uid) s = play_lost_mode_sound apns fresh uid s"
| "handle (UnenrollDevice apns fresh uid) s = unenroll_device apns fresh uid s"

text \<open>The server after a sequence of requests, and the responses it gave.\<close>

fun run :: "event list \<Rightarrow> server \<Rightarrow> server" where
  "run [] s = s"
| "run (e # es) s = run es (snd (handle e s))"

fun responses :: "event list \<Rightarrow> server \<Rightarrow> (error + response) list" where
  "responses [] s = []"
| "responses (e # es) s = fst (handle e s) # responses es (snd (handle e s))"

section \<open>Vocabulary of the statements\<close>

text \<open>The queue of a device id, empty when \<^verbatim>\<open>pending_commands\<close> has no such key.\<close>

definition pending_of :: "server \<Rightarrow> string option \<Rightarrow> mdm_command_dict list" where
  "pending_of s uid = (case pending_commands s uid of None \<Rightarrow> [] | Some q \<Rightarrow> q)"

text \<open>What lines 172 and 173 of \<^verbatim>\<open>mdm_command\<close> answer once \<open>cmd\<close> has been popped:
  the \<^verbatim>\<open>KeyError\<close> of the log line, or what \<^verbatim>\<open>create_plist_response\<close> gives.\<close>

definition reply_for :: "mdm_command_dict \<Rightarrow> error + response" where
  "reply_for cmd =
     (case map_of (Command cmd) ''RequestType'' of
        None \<Rightarrow> Inl (KeyError ''RequestType'')
      | Some _ \<Rightarrow> create_plist_response cmd)"

text \<open>A queued command that lines 172 and 173 get through: its body has a
  \<^verbatim>\<open>RequestType\<close> and the whole command can be written as a plist.\<close>

definition deliverable :: "mdm_command_dict \<Rightarrow> bool" where
  "deliverable cmd \<longleftrightarrow>
     map_of (Command cmd) ''RequestType'' \<noteq> None \<and>
     plist_writable (PString (CommandUUID cmd)) \<and> plist_writable (PDict (Command cmd))"

text \<open>The entry \<open>dev\<close> stored under \<open>uid\<close> carries the token fields of the TokenUpdate
  message \<open>data\<close>.\<close>

definition registered_by :: "plist_data \<Rightarrow> string option \<Rightarrow> device \<Rightarrow> bool" where
  "registered_by data uid dev \<longleftrightarrow>
     MessageType data = Some ''TokenUpdate'' \<and> UDID data = uid \<and> udid dev = uid \<and>
     token dev = hex_if (Token data) \<and> push_magic dev = PushMagic data \<and>
     unlock_token dev = hex_if (UnlockToken data)"

definition token_fields :: "device \<Rightarrow> string option \<times> string option \<times> string option \<times> string option" where
  "token_fields dev = (udid dev, token dev, push_magic dev, unlock_token dev)"

section \<open>Concrete devices, commands and states\<close>

definition dev0 :: device where
  "dev0 = \<lparr>udid = Some ''D'', token = Some ''ab01'', push_magic = Some ''M'',
           unlock_token = None, enrolled_at = ''t0'', last_seen = ''t0'',
           lost_mode_enabled = False, lost_mode_message = None, lost_mode_phone = None\<rparr>"

definition dev_lost :: device where
  "dev_lost = dev0\<lparr>lost_mode_enabled := True, lost_mode_message := Some ''call me'',
                   lost_mode_phone := Some ''555''\<rparr>"

definition cmd_lock :: command where
  "cmd_lock = [(''RequestType'', PString ''DeviceLock'')]"

definition cmd_location :: command where
  "cmd_location = [(''RequestType'', PString ''DeviceLocation'')]"

definition q_empty :: mdm_command_dict where
  "q_empty = \<lparr>CommandUUID = ''c1'', Command = []\<rparr>"

text \<open>The command \<^verbatim>\<open>device_lock\<close> builds from a message that is the control character 1.\<close>

definition q_ctl :: mdm_command_dict where
  "q_ctl = \<lparr>CommandUUID = ''c1'',
            Command = [(''RequestType'', PString ''DeviceLock''), (''Message'', PString [CHR 0x01])]\<rparr>"

definition q1 :: mdm_command_dict where
  "q1 = \<lparr>CommandUUID = ''c1'', Command = cmd_lock\<rparr>"

definition q2 :: mdm_command_dict where
  "q2 = \<lparr>CommandUUID = ''c2'', Command = cmd_location\<rparr>"

definition s_enrolled :: server where
  "s_enrolled = init\<lparr>enrolled_devices := [Some ''D'' \<mapsto> dev0]\<rparr>"

definition s_lost :: server where
  "s_lost = init\<lparr>enrolled_devices := [Some ''D'' \<mapsto> dev_lost]\<rparr>"

definition s_queued :: server where
  "s_queued = s_enrolled\<lparr>pending_commands := [Some ''D'' \<mapsto> [q1, q2]]\<rparr>"


definition empty_plist :: plist_data where
  "empty_plist = \<lparr>MessageType = None, UDID = None, Token = None, PushMagic = None,
                  UnlockToken = None, Status = None, ReportedCommandUUID = None,
                  ErrorChain = None, QueryResponses = None\<rparr>"

definition msg_exchange :: plist_data where
  "msg_exchange = empty_plist\<lparr>UDID := Some ''D''\<rparr>"



definition msg_authenticate :: plist_data where
  "msg_authenticate = msg_exchange\<lparr>MessageType := Some ''Authenticate''\<rparr>"

definition msg_token_update :: plist_data where
  "msg_token_update = msg_exchange\<lparr>MessageType := Some ''TokenUpdate'',
       Token := Some [0xde, 0xad], PushMagic := Some ''M2''\<rparr>"

definition msg_checkout :: plist_data where
  "msg_checkout = msg_exchange\<lparr>MessageType := Some ''CheckOut''\<rparr>"

definition three_exchanges :: "(string \<times> plist_data) list" where
  "three_exchanges = [(''t1'', msg_exchange), (''t2'', msg_exchange), (''t3'', msg_exchange)]"

section \<open>Sequences of requests used in the statements\<close>

text \<open>A sequence of \<^verbatim>\<open>send_command\<close> calls for one device, each with the behaviour of
  the push library and the identifier drawn for it; a sequence of command exchanges, each
  with its clock reading; and the queue element that a \<^verbatim>\<open>send_command\<close> call builds.\<close>

definition enqueue_events :: "string \<Rightarrow> (apns_outcome \<times> string \<times> command) list \<Rightarrow> event list" where
  "enqueue_events uid cs = map (\<lambda>(apns, fresh, cmd). SendCommand apns fresh uid cmd) cs"

definition exchange_events :: "(string \<times> plist_data) list \<Rightarrow> event list" where
  "exchange_events xs = map (\<lambda>(now, data). CommandExchange now data) xs"

definition queued_as :: "apns_outcome \<times> string \<times> command \<Rightarrow> mdm_command_dict" where
  "queued_as = (\<lambda>(apns, fresh, cmd). \<lparr>CommandUUID = fresh, Command = cmd\<rparr>)"

text \<open>Every entry of the registry of \<open>s'\<close> was in the registry of \<open>s\<close> with the same
  token fields.\<close>

definition keeps_tokens :: "server \<Rightarrow> server \<Rightarrow> bool" where
  "keeps_tokens s s' \<longleftrightarrow>
     (\<forall>uid dev'. enrolled_devices s' uid = Some dev' \<longrightarrow>
        (\<exists>dev. enrolled_devices s uid = Some dev \<and> token_fields dev = token_fields dev'))"

definition trace0 :: "event list" where
  "trace0 = [CheckIn ''t0'' ''t0'' msg_authenticate,
             CheckIn ''t1'' ''t2'' msg_token_update,
             EnableLostMode ApnsRaised ''c1'' ''D'' ''call me'' ''555'' None,
             CommandExchange ''t3'' msg_exchange]"

definition dev_final :: device where
  "dev_final = \<lparr>udid = Some ''D'', token = Some ''dead'', push_magic = Some ''M2'',
     unlock_token = None, enrolled_at = ''t1'', last_seen = ''t3'',
     lost_mode_enabled = True, lost_mode_message = Some ''call me'',
     lost_mode_phone = Some ''555''\<rparr>"


section \<open>The command channel, one exchange at a time\<close>

lemma mdm_command_response:
  "fst (mdm_command now data s) =
     (case pending_of s (UDID data) of [] \<Rightarrow> Inr (Response 200) | cmd # rest \<Rightarrow> reply_for cmd)"
  by (simp add: mdm_command_def pending_of_def reply_for_def Let_def
           split: option.splits list.splits)


lemma mdm_command_pending_of:
  "pending_of (snd (mdm_command now data s)) uid =
     (if uid = UDID data then tl (pending_of s uid) else pending_of s uid)"
  by (simp add: mdm_command_def pending_of_def Let_def split: option.splits list.splits)

lemma mdm_command_enrolled:
  "enrolled_devices (snd (mdm_command now data s)) uid =
     (if uid = UDID data then map_option (\<lambda>d. d\<lparr>last_seen := now\<rparr>) (enrolled_devices s uid)
      else enrolled_devices s uid)"
  by (simp add: mdm_command_def Let_def split: option.splits list.splits)


lemma reply_for_deliverable: "deliverable cmd \<Longrightarrow> reply_for cmd = Inr (PlistResponse cmd)"
  by (auto simp: deliverable_def reply_for_def create_plist_response_def)


lemma deliverable_q2: "deliverable q2"
  by (simp add: deliverable_def q2_def cmd_location_def escapable_def control_char_def)


lemma reply_for_q2: "reply_for q2 = Inr (PlistResponse q2)"
  by (rule reply_for_deliverable [OF deliverable_q2])

lemma UDID_msg_exchange: "UDID msg_exchange = Some ''D''"
  by (simp add: msg_exchange_def empty_plist_def)

lemma pending_of_s_queued: "pending_of s_queued (Some ''D'') = [q1, q2]"
  by (simp add: pending_of_def s_queued_def)

section \<open>C1: two exchanges in a row\<close>




section \<open>The check-in channel\<close>

lemma mdm_checkin_checkout:
  "MessageType data = Some ''CheckOut'' \<Longrightarrow>
   mdm_checkin now1 now2 data s
     = (Inr (Response 200), s\<lparr>enrolled_devices := (enrolled_devices s)(UDID data := None)\<rparr>)"
proof -
  assume m: "MessageType data = Some ''CheckOut''"
  have "UDID data \<notin> dom (enrolled_devices s) \<Longrightarrow>
        (enrolled_devices s)(UDID data := None) = enrolled_devices s"
    by (auto simp: fun_eq_iff)
  with m show ?thesis
    by (simp add: mdm_checkin_def Let_def)
qed

lemma MessageType_msg_checkout: "MessageType msg_checkout = Some ''CheckOut''"
  by (simp add: msg_checkout_def msg_exchange_def empty_plist_def)

lemma UDID_msg_checkout: "UDID msg_checkout = Some ''D''"
  by (simp add: msg_checkout_def msg_exchange_def empty_plist_def)

section \<open>C3: CheckOut and the command queue\<close>

text \<open>
  C3 as the specification states it: after a CheckOut no pending or in-flight command of
  the device remains stored. With \<open>q1\<close> and \<open>q2\<close> queued for device D, a CheckOut
  for D removes D from the registry and leaves both commands in
  \<^verbatim>\<open>pending_commands\<close>.
\<close>

theorem checkout_keeps_queue_counterexample:
  "enrolled_devices (snd (mdm_checkin ''t1'' ''t1'' msg_checkout s_queued)) (Some ''D'') = None \<and>
   pending_commands (snd (mdm_checkin ''t1'' ''t1'' msg_checkout s_queued)) (Some ''D'')
     = Some [q1, q2]"
  by (simp add: mdm_checkin_checkout MessageType_msg_checkout UDID_msg_checkout s_queued_def)

text \<open>
  C3, amended: a CheckOut message is answered with 200 and removes the device from the
  registry (a no-op when it is absent); it changes nothing else. In particular the
  device's command queue is left as it was.
\<close>

theorem checkout_removes_registry_entry_only:
  assumes "MessageType data = Some ''CheckOut''"
  shows "fst (mdm_checkin now1 now2 data s) = Inr (Response 200) \<and>
         enrolled_devices (snd (mdm_checkin now1 now2 data s))
           = (enrolled_devices s)(UDID data := None) \<and>
         pending_commands (snd (mdm_checkin now1 now2 data s)) = pending_commands s \<and>
         snd (mdm_checkin now1 now2 data s)
           = s\<lparr>enrolled_devices := (enrolled_devices s)(UDID data := None)\<rparr>"
  by (simp add: mdm_checkin_checkout [OF assms])

theorem checkout_removes_registry_entry_only_witness:
  "MessageType msg_checkout = Some ''CheckOut'' \<and>
   fst (mdm_checkin ''t1'' ''t1'' msg_checkout s_queued) = Inr (Response 200) \<and>
   enrolled_devices (snd (mdm_checkin ''t1'' ''t1'' msg_checkout s_queued)) = Map.empty \<and>
   pending_commands (snd (mdm_checkin ''t1'' ''t1'' msg_checkout s_queued))
     = [Some ''D'' \<mapsto> [q1, q2]]"
proof -
  have e: "(enrolled_devices s_queued)(Some ''D'' := None) = Map.empty"
    by (simp add: s_queued_def s_enrolled_def init_def)
  have p: "pending_commands s_queued = [Some ''D'' \<mapsto> [q1, q2]]"
    by (simp add: s_queued_def)
  from checkout_removes_registry_entry_only [OF MessageType_msg_checkout, of "''t1''" "''t1''" s_queued]
  show ?thesis
    by (simp add: MessageType_msg_checkout UDID_msg_checkout e p)
qed

section \<open>C4: a command exchange after CheckOut\<close>




section \<open>C5: the status a command exchange reports\<close>



section \<open>C7: TokenUpdate for a device already registered\<close>

lemma mdm_checkin_token_update:
  "MessageType data = Some ''TokenUpdate'' \<Longrightarrow>
   mdm_checkin now1 now2 data s
     = (Inr (Response 200),
        s\<lparr>enrolled_devices := (enrolled_devices s)(UDID data \<mapsto>
             \<lparr>udid = UDID data, token = hex_if (Token data), push_magic = PushMagic data,
              unlock_token = hex_if (UnlockToken data), enrolled_at = now1, last_seen = now2,
              lost_mode_enabled = False, lost_mode_message = None, lost_mode_phone = None\<rparr>)\<rparr>)"
  by (simp add: mdm_checkin_def Let_def)

lemma MessageType_msg_token_update: "MessageType msg_token_update = Some ''TokenUpdate''"
  by (simp add: msg_token_update_def msg_exchange_def empty_plist_def)

lemma UDID_msg_token_update: "UDID msg_token_update = Some ''D''"
  by (simp add: msg_token_update_def msg_exchange_def empty_plist_def)

text \<open>
  C7 as the specification states it: a TokenUpdate for a registered device leaves the
  enrollment timestamp and the lost-mode flag, message and phone unchanged. Device D was
  enrolled at t0 and is in lost mode; after a TokenUpdate processed at t1 its entry says
  enrolled at t1, lost mode off, no lost-mode message.
\<close>

theorem token_update_resets_entry_counterexample:
  "map_option enrolled_at (enrolled_devices s_lost (Some ''D'')) = Some ''t0'' \<and>
   map_option enrolled_at
     (enrolled_devices (snd (mdm_checkin ''t1'' ''t2'' msg_token_update s_lost)) (Some ''D''))
     = Some ''t1'' \<and>
   map_option lost_mode_enabled (enrolled_devices s_lost (Some ''D'')) = Some True \<and>
   map_option lost_mode_enabled
     (enrolled_devices (snd (mdm_checkin ''t1'' ''t2'' msg_token_update s_lost)) (Some ''D''))
     = Some False \<and>
   map_option lost_mode_message (enrolled_devices s_lost (Some ''D'')) = Some (Some ''call me'') \<and>
   map_option lost_mode_message
     (enrolled_devices (snd (mdm_checkin ''t1'' ''t2'' msg_token_update s_lost)) (Some ''D''))
     = Some None"
  by (simp add: mdm_checkin_token_update MessageType_msg_token_update UDID_msg_token_update
        s_lost_def dev_lost_def dev0_def)

text \<open>
  C7, amended: a TokenUpdate replaces the whole registry entry of the device, whether it
  existed or not. Token, push magic and unlock token come from the message, the
  enrollment and last-seen timestamps are both set to the current time, the lost-mode
  flag is reset to false and the lost-mode message and phone are dropped. The entries of
  all other devices and all command queues are unchanged.
\<close>

theorem token_update_replaces_entry:
  assumes "MessageType data = Some ''TokenUpdate''"
  shows "fst (mdm_checkin now1 now2 data s) = Inr (Response 200) \<and>
         enrolled_devices (snd (mdm_checkin now1 now2 data s)) (UDID data)
           = Some \<lparr>udid = UDID data, token = hex_if (Token data), push_magic = PushMagic data,
                   unlock_token = hex_if (UnlockToken data), enrolled_at = now1, last_seen = now2,
                   lost_mode_enabled = False, lost_mode_message = None, lost_mode_phone = None\<rparr> \<and>
         (\<forall>uid. uid \<noteq> UDID data \<longrightarrow>
            enrolled_devices (snd (mdm_checkin now1 now2 data s)) uid = enrolled_devices s uid) \<and>
         pending_commands (snd (mdm_checkin now1 now2 data s)) = pending_commands s"
  by (simp add: mdm_checkin_token_update [OF assms])

lemma hex_dead: "hex_if (Some [0xde, 0xad]) = Some ''dead''"
  by (simp add: hex_if_def truthy_def hex_def hexdigit_def)

theorem token_update_replaces_entry_witness:
  "MessageType msg_token_update = Some ''TokenUpdate'' \<and>
   enrolled_devices s_lost (Some ''D'') = Some dev_lost \<and>
   enrolled_devices (snd (mdm_checkin ''t1'' ''t2'' msg_token_update s_lost)) (Some ''D'')
     = Some \<lparr>udid = Some ''D'', token = Some ''dead'', push_magic = Some ''M2'',
             unlock_token = None, enrolled_at = ''t1'', last_seen = ''t2'',
             lost_mode_enabled = False, lost_mode_message = None, lost_mode_phone = None\<rparr>"
proof -
  have t: "Token msg_token_update = Some [0xde, 0xad]" "PushMagic msg_token_update = Some ''M2''"
    "UnlockToken msg_token_update = None"
    by (simp_all add: msg_token_update_def msg_exchange_def empty_plist_def)
  have n: "hex_if None = None"
    by (simp add: hex_if_def truthy_def)
  have l: "enrolled_devices s_lost (Some ''D'') = Some dev_lost"
    by (simp add: s_lost_def)
  from token_update_replaces_entry [OF MessageType_msg_token_update, of "''t1''" "''t2''" s_lost] l
  show ?thesis
    by (simp add: MessageType_msg_token_update UDID_msg_token_update t hex_dead n)
qed

section \<open>Enqueueing and the wake dispatch\<close>

lemma send_apns_notification_state:
  "snd (send_apns_notification apns tok magic topic s)
     = s\<lparr>apns_log := apns_log s @ [(tok, magic, topic)]\<rparr>"
  by (simp add: send_apns_notification_def Let_def split: apns_outcome.splits option.splits)

lemma send_apns_notification_result:
  "fst (send_apns_notification apns tok magic topic s)
     \<longleftrightarrow> apns = ApnsResponse True \<and> tok \<noteq> None"
  by (simp add: send_apns_notification_def Let_def split: apns_outcome.splits option.splits)

lemma send_command_unknown:
  "enrolled_devices s (Some uid) = None \<Longrightarrow>
   send_command apns fresh uid cmd s = (Inl (HTTPException 404 ''Device not found''), s)"
  by (simp add: send_command_def)

lemma send_command_known:
  assumes "enrolled_devices s (Some uid) = Some dev"
  shows "send_command apns fresh uid cmd s =
     (Inr (Queued \<lparr>status = ''queued'', command_uuid = fresh,
                   apns_sent = fst (send_apns_notification apns (token dev) (push_magic dev)
                                      MDM_CONFIG_topic s)\<rparr>),
      s\<lparr>pending_commands := (pending_commands s)(Some uid \<mapsto>
            pending_of s (Some uid) @ [\<lparr>CommandUUID = fresh, Command = cmd\<rparr>]),
        uuid4_log := uuid4_log s @ [fresh],
        apns_log := apns_log s @ [(token dev, push_magic dev, MDM_CONFIG_topic)]\<rparr>)"
proof (cases "pending_commands s (Some uid)")
  case None
  with assms show ?thesis
    by (simp add: send_command_def Let_def pending_of_def domIff send_apns_notification_state
          send_apns_notification_result
          split_beta)
next
  case (Some q)
  with assms show ?thesis
    by (simp add: send_command_def Let_def pending_of_def domIff send_apns_notification_state
          send_apns_notification_result
          split_beta)
qed

section \<open>C6: enqueueing for an unknown device\<close>

text \<open>
  C6: \<^verbatim>\<open>send_command\<close> fails if and only if the device id is not a key of
  \<^verbatim>\<open>enrolled_devices\<close>, and the failure is the 404 "Device not found". When it fails
  the whole state is unchanged: the command queues are as they were, no identifier has
  been drawn from \<^verbatim>\<open>uuid4\<close> and no wake has been dispatched.
\<close>

theorem send_command_fails_iff_unknown:
  "(isl (fst (send_command apns fresh uid cmd s)) \<longleftrightarrow> Some uid \<notin> dom (enrolled_devices s)) \<and>
   (Some uid \<notin> dom (enrolled_devices s) \<longrightarrow>
      send_command apns fresh uid cmd s = (Inl (HTTPException 404 ''Device not found''), s))"
proof (cases "enrolled_devices s (Some uid)")
  case None
  then show ?thesis
    by (simp add: send_command_unknown domIff)
next
  case (Some dev)
  then show ?thesis
    by (simp add: send_command_known domIff)
qed

theorem send_command_fails_iff_unknown_witness:
  "Some ''X'' \<notin> dom (enrolled_devices s_queued) \<and>
   send_command (ApnsResponse True) ''c3'' ''X'' cmd_lock s_queued
     = (Inl (HTTPException 404 ''Device not found''), s_queued) \<and>
   \<not> isl (fst (send_command (ApnsResponse True) ''c3'' ''D'' cmd_lock s_queued))"
proof -
  have x: "Some ''X'' \<notin> dom (enrolled_devices s_queued)"
    by (simp add: s_queued_def s_enrolled_def init_def)
  have d: "Some ''D'' \<in> dom (enrolled_devices s_queued)"
    by (simp add: s_queued_def s_enrolled_def init_def)
  from send_command_fails_iff_unknown [of "ApnsResponse True" "''c3''" "''X''" cmd_lock s_queued]
       send_command_fails_iff_unknown [of "ApnsResponse True" "''c3''" "''D''" cmd_lock s_queued]
       x d
  show ?thesis by simp
qed

section \<open>C8: a failed wake leaves the command queued\<close>

text \<open>
  C8: when the push library raises an exception or reports an unsuccessful delivery,
  \<^verbatim>\<open>send_apns_notification\<close> returns \<^verbatim>\<open>False\<close> rather than raising, and
  \<^verbatim>\<open>send_command\<close> for a registered device still returns its result, with status
  "queued", the new command identifier and \<^verbatim>\<open>apns_sent\<close> false, the command standing
  at the tail of the device's queue.
\<close>

theorem push_failure_keeps_command_queued:
  assumes "enrolled_devices s (Some uid) = Some dev"
      and "apns = ApnsRaised \<or> apns = ApnsResponse False"
  shows "fst (send_apns_notification apns tok magic topic s') = False \<and>
         fst (send_command apns fresh uid cmd s)
           = Inr (Queued \<lparr>status = ''queued'', command_uuid = fresh, apns_sent = False\<rparr>) \<and>
         pending_commands (snd (send_command apns fresh uid cmd s)) (Some uid)
           = Some (pending_of s (Some uid) @ [\<lparr>CommandUUID = fresh, Command = cmd\<rparr>])"
proof -
  from assms(2) have f: "\<And>tok magic topic t. \<not> fst (send_apns_notification apns tok magic topic t)"
    by (auto simp: send_apns_notification_result)
  show ?thesis
    by (simp add: send_command_known [OF assms(1)] f)
qed

theorem push_failure_keeps_command_queued_witness:
  "enrolled_devices s_queued (Some ''D'') = Some dev0 \<and>
   fst (send_apns_notification ApnsRaised (Some ''ab01'') (Some ''M'') MDM_CONFIG_topic s_queued)
     = False \<and>
   fst (send_command ApnsRaised ''c3'' ''D'' cmd_lock s_queued)
     = Inr (Queued \<lparr>status = ''queued'', command_uuid = ''c3'', apns_sent = False\<rparr>) \<and>
   pending_commands (snd (send_command ApnsRaised ''c3'' ''D'' cmd_lock s_queued)) (Some ''D'')
     = Some [q1, q2, \<lparr>CommandUUID = ''c3'', Command = cmd_lock\<rparr>] \<and>
   fst (send_command (ApnsResponse False) ''c3'' ''D'' cmd_lock s_queued)
     = Inr (Queued \<lparr>status = ''queued'', command_uuid = ''c3'', apns_sent = False\<rparr>)"
proof -
  have a: "enrolled_devices s_queued (Some ''D'') = Some dev0"
    by (simp add: s_queued_def s_enrolled_def init_def)
  from push_failure_keeps_command_queued
         [OF a, where apns = ApnsRaised and fresh = "''c3''" and cmd = cmd_lock
            and tok = "Some ''ab01''" and magic = "Some ''M''" and topic = MDM_CONFIG_topic
            and s' = s_queued]
       push_failure_keeps_command_queued
         [OF a, where apns = "ApnsResponse False" and fresh = "''c3''" and cmd = cmd_lock]
       a
  show ?thesis
    by (simp add: pending_of_s_queued)
qed

section \<open>C2: FIFO delivery\<close>

lemma send_command_enrolled:
  "enrolled_devices (snd (send_command apns fresh uid cmd s)) = enrolled_devices s"
  by (cases "enrolled_devices s (Some uid)") (simp_all add: send_command_unknown send_command_known)

lemma send_command_pending_of:
  assumes "Some uid \<in> dom (enrolled_devices s)"
  shows "pending_of (snd (send_command apns fresh uid cmd s)) (Some uid)
           = pending_of s (Some uid) @ [\<lparr>CommandUUID = fresh, Command = cmd\<rparr>]"
proof -
  from assms obtain dev where "enrolled_devices s (Some uid) = Some dev"
    by auto
  then show ?thesis
    by (simp add: send_command_known) (simp add: pending_of_def)
qed

lemma run_enqueue_pending_of:
  "Some uid \<in> dom (enrolled_devices s) \<Longrightarrow>
   pending_of (run (enqueue_events uid cs) s) (Some uid) = pending_of s (Some uid) @ map queued_as cs"
proof (induction cs arbitrary: s)
  case Nil
  then show ?case by (simp add: enqueue_events_def)
next
  case (Cons c cs)
  obtain apns fresh cmd where c: "c = (apns, fresh, cmd)"
    by (cases c) auto
  let ?s1 = "snd (send_command apns fresh uid cmd s)"
  have "Some uid \<in> dom (enrolled_devices ?s1)"
    using Cons.prems by (simp add: send_command_enrolled)
  then have "pending_of (run (enqueue_events uid cs) ?s1) (Some uid)
               = pending_of ?s1 (Some uid) @ map queued_as cs"
    by (rule Cons.IH)
  moreover have "run (enqueue_events uid (c # cs)) s = run (enqueue_events uid cs) ?s1"
    by (simp add: enqueue_events_def c)
  ultimately show ?case
    using Cons.prems by (simp add: send_command_pending_of c queued_as_def)
qed

lemma responses_exchanges:
  "\<forall>(now, data) \<in> set xs. UDID data = u \<Longrightarrow>
   responses (exchange_events xs) s
     = take (length xs) (map reply_for (pending_of s u))
       @ replicate (length xs - length (pending_of s u)) (Inr (Response 200))"
proof (induction xs arbitrary: s)
  case Nil
  then show ?case by (simp add: exchange_events_def)
next
  case (Cons x xs)
  obtain now data where x: "x = (now, data)"
    by (cases x) auto
  with Cons.prems have u: "UDID data = u" and rest: "\<forall>(now, data) \<in> set xs. UDID data = u"
    by auto
  let ?s1 = "snd (mdm_command now data s)"
  have step: "responses (exchange_events (x # xs)) s
                = fst (mdm_command now data s) # responses (exchange_events xs) ?s1"
    by (simp add: exchange_events_def x)
  have ih: "responses (exchange_events xs) ?s1
              = take (length xs) (map reply_for (tl (pending_of s u)))
                @ replicate (length xs - length (tl (pending_of s u))) (Inr (Response 200))"
    using Cons.IH [OF rest, of ?s1] by (simp add: mdm_command_pending_of u)
  show ?case
  proof (cases "pending_of s u")
    case Nil
    then show ?thesis
      using step ih by (simp add: mdm_command_response u)
  next
    case (Cons cmd q)
    then show ?thesis
      using step ih by (simp add: mdm_command_response u)
  qed
qed

text \<open>
  The answers of the exchanges that follow a sequence of \<^verbatim>\<open>send_command\<close> calls for a
  registered device: the k-th exchange answers for the k-th command of the old queue
  followed by the new commands, and once the queue is used up every exchange answers the
  empty 200.
\<close>

lemma exchanges_answer_in_queue_order:
  assumes "Some uid \<in> dom (enrolled_devices s)"
      and "\<forall>(now, data) \<in> set xs. UDID data = Some uid"
  shows "responses (exchange_events xs) (run (enqueue_events uid cs) s)
           = take (length xs) (map reply_for (pending_of s (Some uid) @ map queued_as cs))
             @ replicate (length xs - (length (pending_of s (Some uid)) + length cs))
                 (Inr (Response 200))"
  by (simp add: responses_exchanges [OF assms(2)] run_enqueue_pending_of [OF assms(1)])

lemma reply_for_q_empty: "reply_for q_empty = Inl (KeyError ''RequestType'')"
  by (simp add: reply_for_def q_empty_def)

lemma reply_for_q_ctl: "reply_for q_ctl = Inl PlistlibError"
  by (simp add: reply_for_def create_plist_response_def q_ctl_def escapable_def control_char_def)

lemma device_lock_builds_q_ctl:
  "device_lock apns ''c1'' uid (Some [CHR 0x01]) None s
     = send_command apns ''c1'' uid (Command q_ctl) s \<and> CommandUUID q_ctl = ''c1''"
  by (simp add: device_lock_def Let_def truthy_def q_ctl_def)

lemma UDID_three_exchanges: "\<forall>(now, data) \<in> set three_exchanges. UDID data = Some ''D''"
  by (simp add: three_exchanges_def UDID_msg_exchange)

lemma enrolled_s_enrolled: "Some ''D'' \<in> dom (enrolled_devices s_enrolled)"
  by (simp add: s_enrolled_def init_def)

lemma pending_of_s_enrolled: "pending_of s_enrolled (Some ''D'') = []"
  by (simp add: pending_of_def s_enrolled_def init_def)

text \<open>
  C2 on the code: the exchanges hand out the queued commands in the order of their
  enqueueing, but not every queued command is delivered. The exchange pops the head of
  the queue (line 171) before the two steps that can raise, the log line of line 172 and
  \<^verbatim>\<open>create_plist_response\<close> of line 173. For device D, enrolled, a \<^verbatim>\<open>send_command\<close>
  with the body \<^verbatim>\<open>{}\<close> followed by one with a DeviceLocation body, and then three
  exchanges: the first exchange consumes the first command and raises \<^verbatim>\<open>KeyError\<close>, so
  that this command is never delivered. The same happens to the command that
  \<^verbatim>\<open>device_lock\<close> builds from a message holding the control character 1, which
  \<^verbatim>\<open>plistlib\<close> refuses to write.
\<close>

theorem fifo_delivery_loses_command:
  "responses (exchange_events three_exchanges)
     (run (enqueue_events ''D'' [(ApnsRaised, ''c1'', []), (ApnsRaised, ''c2'', cmd_location)])
        s_enrolled)
     = [Inl (KeyError ''RequestType''), Inr (PlistResponse q2), Inr (Response 200)] \<and>
   responses (exchange_events three_exchanges)
     (run [DeviceLock ApnsRaised ''c1'' ''D'' (Some [CHR 0x01]) None,
           SendCommand ApnsRaised ''c2'' ''D'' cmd_location]
        s_enrolled)
     = [Inl PlistlibError, Inr (PlistResponse q2), Inr (Response 200)]"
proof -
  have q: "queued_as (ApnsRaised, ''c1'', []) = q_empty"
    "queued_as (ApnsRaised, ''c1'', Command q_ctl) = q_ctl"
    "queued_as (ApnsRaised, ''c2'', cmd_location) = q2"
    by (simp_all add: queued_as_def q_empty_def q_ctl_def q2_def)
  have len: "length three_exchanges = 3"
    by (simp add: three_exchanges_def)
  have first: "responses (exchange_events three_exchanges)
     (run (enqueue_events ''D'' [(ApnsRaised, ''c1'', []), (ApnsRaised, ''c2'', cmd_location)])
        s_enrolled)
     = [Inl (KeyError ''RequestType''), Inr (PlistResponse q2), Inr (Response 200)]"
    by (simp add: exchanges_answer_in_queue_order [OF enrolled_s_enrolled UDID_three_exchanges]
          pending_of_s_enrolled q len reply_for_q_empty reply_for_q2 numeral_3_eq_3)
  have r: "run [DeviceLock ApnsRaised ''c1'' ''D'' (Some [CHR 0x01]) None,
                SendCommand ApnsRaised ''c2'' ''D'' cmd_location] s_enrolled
             = run (enqueue_events ''D''
                      [(ApnsRaised, ''c1'', Command q_ctl), (ApnsRaised, ''c2'', cmd_location)])
                 s_enrolled"
    by (simp add: enqueue_events_def device_lock_builds_q_ctl)
  have second: "responses (exchange_events three_exchanges)
     (run [DeviceLock ApnsRaised ''c1'' ''D'' (Some [CHR 0x01]) None,
           SendCommand ApnsRaised ''c2'' ''D'' cmd_location]
        s_enrolled)
     = [Inl PlistlibError, Inr (PlistResponse q2), Inr (Response 200)]"
    unfolding r
    by (simp add: exchanges_answer_in_queue_order [OF enrolled_s_enrolled UDID_three_exchanges]
          pending_of_s_enrolled q len reply_for_q_ctl reply_for_q2 numeral_3_eq_3)
  from first second show ?thesis ..
qed

section \<open>C9: where registry entries come from\<close>

lemma keeps_tokens_refl: "keeps_tokens s s"
  by (simp add: keeps_tokens_def)

lemma keeps_tokens_trans: "keeps_tokens s s1 \<Longrightarrow> keeps_tokens s1 s2 \<Longrightarrow> keeps_tokens s s2"
proof -
  assume a: "keeps_tokens s s1" and b: "keeps_tokens s1 s2"
  show ?thesis
    unfolding keeps_tokens_def
  proof (intro allI impI)
    fix uid dev2
    assume "enrolled_devices s2 uid = Some dev2"
    with b obtain dev1 where d1: "enrolled_devices s1 uid = Some dev1"
      and t1: "token_fields dev1 = token_fields dev2"
      unfolding keeps_tokens_def by blast
    from a d1 obtain dev where "enrolled_devices s uid = Some dev"
      and "token_fields dev = token_fields dev1"
      unfolding keeps_tokens_def by blast
    with t1 show "\<exists>dev. enrolled_devices s uid = Some dev \<and> token_fields dev = token_fields dev2"
      by simp
  qed
qed

lemma keeps_tokens_same: "enrolled_devices s' = enrolled_devices s \<Longrightarrow> keeps_tokens s s'"
  by (simp add: keeps_tokens_def)

lemma send_command_keeps: "keeps_tokens s (snd (send_command apns fresh uid cmd s))"
  by (simp add: keeps_tokens_same send_command_enrolled)

lemma mdm_command_keeps: "keeps_tokens s (snd (mdm_command now data s))"
  by (auto simp: keeps_tokens_def mdm_command_enrolled token_fields_def split: if_splits)

lemma set_lost_mode_keeps:
  "enrolled_devices s (Some uid) = Some dev \<Longrightarrow>
   keeps_tokens s (s\<lparr>enrolled_devices := (enrolled_devices s)(Some uid \<mapsto>
      dev\<lparr>lost_mode_enabled := b, lost_mode_message := m, lost_mode_phone := p\<rparr>)\<rparr>)"
  by (auto simp: keeps_tokens_def token_fields_def split: if_splits)


lemma send_command_keeps_after:
  "keeps_tokens s s1 \<Longrightarrow> keeps_tokens s (snd (send_command apns fresh uid cmd s1))"
  by (rule keeps_tokens_trans [OF _ send_command_keeps])

lemma enable_lost_mode_keeps:
  "keeps_tokens s (snd (enable_lost_mode apns fresh uid message phone_number footnote s))"
proof (cases "enrolled_devices s (Some uid)")
  case None
  then show ?thesis by (simp add: enable_lost_mode_def keeps_tokens_refl)
next
  case (Some dev)
  show ?thesis
    unfolding enable_lost_mode_def Let_def
    by (simp only: Some option.case) (rule send_command_keeps_after [OF set_lost_mode_keeps [OF Some]])
qed

lemma disable_lost_mode_keeps:
  "keeps_tokens s (snd (disable_lost_mode apns fresh uid s))"
proof (cases "enrolled_devices s (Some uid)")
  case None
  then show ?thesis by (simp add: disable_lost_mode_def keeps_tokens_refl)
next
  case (Some dev)
  show ?thesis
  proof (cases "lost_mode_enabled dev")
    case False
    with Some show ?thesis by (simp add: disable_lost_mode_def keeps_tokens_refl)
  next
    case True
    show ?thesis
      unfolding disable_lost_mode_def Let_def
      by (simp only: Some option.case True not_True_eq_False if_False)
        (rule send_command_keeps_after [OF set_lost_mode_keeps [OF Some]])
  qed
qed

lemma unenroll_device_keeps: "keeps_tokens s (snd (unenroll_device apns fresh uid s))"
proof -
  let ?cmd = "[(''RequestType'', PString ''RemoveProfile''), (''Identifier'', PString ''com.yourorg.mdm'')]"
  obtain r s1 where sc: "send_command apns fresh uid ?cmd s = (r, s1)"
    by (cases "send_command apns fresh uid ?cmd s") auto
  then have "s1 = snd (send_command apns fresh uid ?cmd s)"
    by simp
  then have e: "enrolled_devices s1 = enrolled_devices s"
    by (simp add: send_command_enrolled)
  have "enrolled_devices (snd (unenroll_device apns fresh uid s)) = enrolled_devices s"
    by (cases r) (simp_all add: unenroll_device_def Let_def sc e)
  then show ?thesis by (rule keeps_tokens_same)
qed


lemma mdm_checkin_keeps:
  assumes "MessageType data \<noteq> Some ''TokenUpdate''"
  shows "keeps_tokens s (snd (mdm_checkin now1 now2 data s))"
proof (cases "MessageType data = Some ''CheckOut''")
  case True
  then show ?thesis
    by (simp add: mdm_checkin_checkout keeps_tokens_def)
next
  case False
  with assms have "snd (mdm_checkin now1 now2 data s) = s"
    by (simp add: mdm_checkin_def Let_def)
  then show ?thesis by (simp add: keeps_tokens_refl)
qed

lemma get_lost_mode_location_keeps:
  "keeps_tokens s (snd (get_lost_mode_location apns fresh uid s))"
  by (simp add: get_lost_mode_location_def keeps_tokens_refl send_command_keeps)

lemma play_lost_mode_sound_keeps:
  "keeps_tokens s (snd (play_lost_mode_sound apns fresh uid s))"
  by (simp add: play_lost_mode_sound_def keeps_tokens_refl send_command_keeps)

lemma handle_keeps:
  assumes "\<And>now1 now2 data. e = CheckIn now1 now2 data \<Longrightarrow> MessageType data \<noteq> Some ''TokenUpdate''"
  shows "keeps_tokens s (snd (handle e s))"
proof (cases e)
  case (CheckIn now1 now2 data)
  with assms show ?thesis by (simp add: mdm_checkin_keeps)
next
  case (CommandExchange now data)
  then show ?thesis by (simp add: mdm_command_keeps)
next
  case (SendCommand apns fresh uid cmd)
  then show ?thesis by (simp add: send_command_keeps)
next
  case (RequestDeviceInfo apns fresh uid)
  then show ?thesis by (simp add: request_device_info_def Let_def send_command_keeps)
next
  case (InstallProfile apns fresh uid profile payload)
  then show ?thesis
    by (simp add: install_profile_def Let_def send_command_keeps keeps_tokens_refl
          del: plist_writable.simps)
next
  case (DeviceLock apns fresh uid message phone_number)
  then show ?thesis by (simp add: device_lock_def Let_def send_command_keeps)
next
  case (EnableLostMode apns fresh uid message phone_number footnote)
  then show ?thesis by (simp add: enable_lost_mode_keeps)
next
  case (DisableLostMode apns fresh uid)
  then show ?thesis by (simp add: disable_lost_mode_keeps)
next
  case (GetLostModeLocation apns fresh uid)
  then show ?thesis by (simp add: get_lost_mode_location_keeps)
next
  case (PlayLostModeSound apns fresh uid)
  then show ?thesis by (simp add: play_lost_mode_sound_keeps)
next
  case (UnenrollDevice apns fresh uid)
  then show ?thesis by (simp add: unenroll_device_keeps)
qed

lemma registered_by_cong:
  "token_fields dev = token_fields dev' \<Longrightarrow> registered_by data uid dev = registered_by data uid dev'"
  by (simp add: registered_by_def token_fields_def)

lemma token_update_registered:
  assumes m: "MessageType data = Some ''TokenUpdate''"
      and e: "enrolled_devices (snd (mdm_checkin now1 now2 data s)) uid = Some dev'"
  shows "registered_by data uid dev' \<or> enrolled_devices s uid = Some dev'"
proof (cases "uid = UDID data")
  case True
  from e have "dev' = \<lparr>udid = UDID data, token = hex_if (Token data), push_magic = PushMagic data,
              unlock_token = hex_if (UnlockToken data), enrolled_at = now1, last_seen = now2,
              lost_mode_enabled = False, lost_mode_message = None, lost_mode_phone = None\<rparr>"
    by (simp add: mdm_checkin_token_update [OF m] True)
  then have "registered_by data uid dev'"
    by (simp add: registered_by_def m True)
  then show ?thesis ..
next
  case False
  with e have "enrolled_devices s uid = Some dev'"
    by (simp add: mdm_checkin_token_update [OF m])
  then show ?thesis ..
qed


lemma handle_registered:
  assumes "enrolled_devices (snd (handle e s)) uid = Some dev'"
  shows "(\<exists>now1 now2 data. e = CheckIn now1 now2 data \<and> registered_by data uid dev') \<or>
         (\<exists>dev. enrolled_devices s uid = Some dev \<and> token_fields dev = token_fields dev')"
proof (cases "\<exists>now1 now2 data. e = CheckIn now1 now2 data \<and> MessageType data = Some ''TokenUpdate''")
  case True
  then obtain now1 now2 data where e: "e = CheckIn now1 now2 data"
    and m: "MessageType data = Some ''TokenUpdate''"
    by blast
  from assms e have "enrolled_devices (snd (mdm_checkin now1 now2 data s)) uid = Some dev'"
    by simp
  from token_update_registered [OF m this] show ?thesis
  proof
    assume "registered_by data uid dev'"
    with e show ?thesis by blast
  next
    assume "enrolled_devices s uid = Some dev'"
    then show ?thesis by blast
  qed
next
  case False
  then have "\<And>now1 now2 data. e = CheckIn now1 now2 data \<Longrightarrow> MessageType data \<noteq> Some ''TokenUpdate''"
    by blast
  then have "keeps_tokens s (snd (handle e s))"
    by (rule handle_keeps)
  with assms have "\<exists>dev. enrolled_devices s uid = Some dev \<and> token_fields dev = token_fields dev'"
    unfolding keeps_tokens_def by blast
  then show ?thesis ..
qed


lemma run_registered:
  assumes "enrolled_devices (run evs s) uid = Some dev"
  shows "(\<exists>now1 now2 data. CheckIn now1 now2 data \<in> set evs \<and> registered_by data uid dev) \<or>
         (\<exists>dev0. enrolled_devices s uid = Some dev0 \<and> token_fields dev0 = token_fields dev)"
  using assms
proof (induction evs arbitrary: s)
  case Nil
  then show ?case by simp
next
  case (Cons e evs)
  from Cons.prems have "enrolled_devices (run evs (snd (handle e s))) uid = Some dev"
    by simp
  from Cons.IH [OF this] show ?case
  proof
    assume "\<exists>now1 now2 data. CheckIn now1 now2 data \<in> set evs \<and> registered_by data uid dev"
    then obtain now1 now2 data where "CheckIn now1 now2 data \<in> set evs" "registered_by data uid dev"
      by blast
    then have "CheckIn now1 now2 data \<in> set (e # evs) \<and> registered_by data uid dev"
      by simp
    then show ?thesis by blast
  next
    assume "\<exists>dev1. enrolled_devices (snd (handle e s)) uid = Some dev1 \<and>
                    token_fields dev1 = token_fields dev"
    then obtain dev1 where d1: "enrolled_devices (snd (handle e s)) uid = Some dev1"
      and t1: "token_fields dev1 = token_fields dev"
      by blast
    from handle_registered [OF d1] show ?thesis
    proof
      assume "\<exists>now1 now2 data. e = CheckIn now1 now2 data \<and> registered_by data uid dev1"
      then obtain now1 now2 data where "e = CheckIn now1 now2 data" "registered_by data uid dev1"
        by blast
      with registered_by_cong [OF t1, of data uid]
      have "CheckIn now1 now2 data \<in> set (e # evs) \<and> registered_by data uid dev"
        by simp
      then show ?thesis by blast
    next
      assume "\<exists>dev0. enrolled_devices s uid = Some dev0 \<and> token_fields dev0 = token_fields dev1"
      then obtain dev0 where "enrolled_devices s uid = Some dev0" "token_fields dev0 = token_fields dev1"
        by blast
      with t1 have "enrolled_devices s uid = Some dev0 \<and> token_fields dev0 = token_fields dev"
        by simp
      then show ?thesis by blast
    qed
  qed
qed

lemma mdm_checkin_authenticate:
  "MessageType data = Some ''Authenticate'' \<Longrightarrow>
   mdm_checkin now1 now2 data s = (Inr (Response 200), s)"
  by (simp add: mdm_checkin_def)

text \<open>
  C9: an Authenticate message is answered with 200 and leaves the whole state, the
  registry included, as it was. In every state the server reaches from the empty one, by
  any sequence of requests to any of its handlers, an entry of the registry is there only
  if a TokenUpdate for that device id is among the requests processed, and the entry
  carries that id and the token, push magic and unlock token of such a TokenUpdate.
\<close>

theorem registry_entries_come_from_token_update:
  "(MessageType data = Some ''Authenticate'' \<longrightarrow>
      mdm_checkin now1 now2 data s = (Inr (Response 200), s)) \<and>
   (enrolled_devices (run evs init) uid = Some dev \<longrightarrow>
      (\<exists>t1 t2 tu. CheckIn t1 t2 tu \<in> set evs \<and> registered_by tu uid dev))"
proof (intro conjI impI)
  assume "MessageType data = Some ''Authenticate''"
  then show "mdm_checkin now1 now2 data s = (Inr (Response 200), s)"
    by (rule mdm_checkin_authenticate)
next
  assume "enrolled_devices (run evs init) uid = Some dev"
  from run_registered [OF this]
  show "\<exists>t1 t2 tu. CheckIn t1 t2 tu \<in> set evs \<and> registered_by tu uid dev"
  proof
    assume "\<exists>now1 now2 data. CheckIn now1 now2 data \<in> set evs \<and> registered_by data uid dev"
    then show ?thesis .
  next
    assume "\<exists>dev0. enrolled_devices init uid = Some dev0 \<and> token_fields dev0 = token_fields dev"
    then show ?thesis by (simp add: init_def)
  qed
qed

lemma MessageType_msg_authenticate: "MessageType msg_authenticate = Some ''Authenticate''"
  by (simp add: msg_authenticate_def msg_exchange_def empty_plist_def)

lemma token_update_fields:
  "Token msg_token_update = Some [0xde, 0xad]" "PushMagic msg_token_update = Some ''M2''"
  "UnlockToken msg_token_update = None"
  by (simp_all add: msg_token_update_def msg_exchange_def empty_plist_def)

lemma hex_if_None: "hex_if None = None"
  by (simp add: hex_if_def truthy_def)

lemma enable_lost_mode_enrolled:
  "enrolled_devices s (Some uid) = Some dev \<Longrightarrow>
   enrolled_devices (snd (enable_lost_mode apns fresh uid message phone_number footnote s))
     = (enrolled_devices s)(Some uid \<mapsto>
          dev\<lparr>lost_mode_enabled := True, lost_mode_message := Some message,
              lost_mode_phone := Some phone_number\<rparr>)"
  by (simp add: enable_lost_mode_def Let_def send_command_enrolled)

lemma run_trace0: "enrolled_devices (run trace0 init) (Some ''D'') = Some dev_final"
proof -
  let ?s1 = "snd (mdm_checkin ''t0'' ''t0'' msg_authenticate init)"
  let ?s2 = "snd (mdm_checkin ''t1'' ''t2'' msg_token_update ?s1)"
  let ?s3 = "snd (enable_lost_mode ApnsRaised ''c1'' ''D'' ''call me'' ''555'' None ?s2)"
  let ?s4 = "snd (mdm_command ''t3'' msg_exchange ?s3)"
  have r: "run trace0 init = ?s4"
    by (simp add: trace0_def)
  have s1: "?s1 = init"
    by (simp add: mdm_checkin_authenticate MessageType_msg_authenticate)
  have s2: "enrolled_devices ?s2 (Some ''D'')
              = Some \<lparr>udid = Some ''D'', token = Some ''dead'', push_magic = Some ''M2'',
                      unlock_token = None, enrolled_at = ''t1'', last_seen = ''t2'',
                      lost_mode_enabled = False, lost_mode_message = None, lost_mode_phone = None\<rparr>"
    by (simp add: s1 mdm_checkin_token_update MessageType_msg_token_update UDID_msg_token_update
          token_update_fields hex_dead hex_if_None)
  have s3: "enrolled_devices ?s3 (Some ''D'')
              = Some \<lparr>udid = Some ''D'', token = Some ''dead'', push_magic = Some ''M2'',
                      unlock_token = None, enrolled_at = ''t1'', last_seen = ''t2'',
                      lost_mode_enabled = True, lost_mode_message = Some ''call me'',
                      lost_mode_phone = Some ''555''\<rparr>"
    by (simp add: enable_lost_mode_enrolled [OF s2])
  have "enrolled_devices ?s4 (Some ''D'') = Some dev_final"
    by (simp add: mdm_command_enrolled UDID_msg_exchange s3 dev_final_def)
  with r show ?thesis by simp
qed

theorem registry_entries_come_from_token_update_witness:
  "MessageType msg_authenticate = Some ''Authenticate'' \<and>
   mdm_checkin ''t0'' ''t0'' msg_authenticate s_queued = (Inr (Response 200), s_queued) \<and>
   enrolled_devices (run trace0 init) (Some ''D'') = Some dev_final \<and>
   (\<exists>t1 t2 tu. CheckIn t1 t2 tu \<in> set trace0 \<and> registered_by tu (Some ''D'') dev_final)"
  using registry_entries_come_from_token_update
          [of msg_authenticate "''t0''" "''t0''" s_queued trace0 "Some ''D''" dev_final]
        MessageType_msg_authenticate run_trace0
  by simp

section \<open>C10: disabling lost mode when it is not enabled\<close>

text \<open>
  C10: for a registered device whose lost-mode flag is not set,
  \<^verbatim>\<open>disable_lost_mode\<close> raises the HTTP 400 "Lost Mode is not enabled" and leaves the
  whole state as it was: registry entry and command queue unchanged, no identifier
  drawn, no wake dispatched.
\<close>

theorem disable_lost_mode_not_enabled:
  assumes "enrolled_devices s (Some uid) = Some dev" and "\<not> lost_mode_enabled dev"
  shows "disable_lost_mode apns fresh uid s
           = (Inl (HTTPException 400 ''Lost Mode is not enabled''), s)"
  using assms by (simp add: disable_lost_mode_def)

theorem disable_lost_mode_not_enabled_witness:
  "enrolled_devices s_enrolled (Some ''D'') = Some dev0 \<and> \<not> lost_mode_enabled dev0 \<and>
   disable_lost_mode (ApnsResponse True) ''id1'' ''D'' s_enrolled
     = (Inl (HTTPException 400 ''Lost Mode is not enabled''), s_enrolled)"
proof -
  have a: "enrolled_devices s_enrolled (Some ''D'') = Some dev0"
    by (simp add: s_enrolled_def init_def)
  have b: "\<not> lost_mode_enabled dev0"
    by (simp add: dev0_def)
  from disable_lost_mode_not_enabled [OF a b] a b show ?thesis
    by simp
qed

end
